theory Spec2Isabelle
  imports Main "HOL-Library.Signed_Division"
begin

section \<open>The Nachos file system layer (filesys.cc)\<close>

text \<open>
  The development embeds \<^verbatim>\<open>code/filesys/filesys.cc\<close>: path resolution
  (\<^verbatim>\<open>PreprocessPath\<close>, \<^verbatim>\<open>GoDirectory\<close>), the operations
  \<^verbatim>\<open>Create\<close>, \<^verbatim>\<open>Open\<close>, \<^verbatim>\<open>Remove\<close>, and the system-wide
  table of open files (\<^verbatim>\<open>GetSysFd\<close>, \<^verbatim>\<open>Read\<close>, \<^verbatim>\<open>Write\<close>,
  \<^verbatim>\<open>Seek\<close>, \<^verbatim>\<open>Close\<close>).

  The classes \<^verbatim>\<open>PersistentBitmap\<close>, \<^verbatim>\<open>Directory\<close>, \<^verbatim>\<open>FileHeader\<close>
  and \<^verbatim>\<open>OpenFile\<close> are used by that file but defined elsewhere; their operations are
  modelled from the written specification, each under a comment that says so.
\<close>

subsection \<open>Constants\<close>

text \<open>\<^verbatim>\<open>#define FreeMapSector 0\<close>, \<^verbatim>\<open>#define DirectorySector 1\<close>,
  \<^verbatim>\<open>#define NumDirEntries 10\<close>.\<close>

definition FreeMapSector :: int where
  "FreeMapSector = 0"

definition DirectorySector :: int where
  "DirectorySector = 1"

definition NumDirEntries :: nat where
  "NumDirEntries = 10"

text \<open>\<^verbatim>\<open>const int NAME_SIZE = 255\<close> in \<^verbatim>\<open>PreprocessPath\<close>.\<close>

definition NAME_SIZE :: nat where
  "NAME_SIZE = 255"

subsection \<open>Data model\<close>

text \<open>A sector number is a C \<^verbatim>\<open>int\<close>; \<open>-1\<close> is the value the code tests for
  "none".\<close>

type_synonym bitmap = "bool list"

record DirectoryEntry =
  inUse :: bool
  e_sector :: int
  e_name :: string

type_synonym directory = "DirectoryEntry list"

record FileHeader =
  numBytes :: int
  dataSectors :: "int list"

text \<open>An \<^verbatim>\<open>OpenFile*\<close>: the address of the object (what the code compares with
  \<^verbatim>\<open>dirFile != directoryFile\<close>), the sector of the file header it was constructed
  from, and the descriptor tag assigned by \<^verbatim>\<open>SetFd\<close> (\<open>None\<close> until assigned).\<close>

record OpenFile =
  addr :: nat
  hdrSector :: int
  fdTag :: "int option"

text \<open>The disk as the file system sees it through its collaborators: the file header
  stored in a sector, and the content of the file whose header is in a sector, read as a
  directory table or as a bitmap.\<close>

record disk =
  hdrs :: "int \<Rightarrow> FileHeader"
  dirs :: "int \<Rightarrow> directory"
  maps :: "int \<Rightarrow> bitmap"

datatype write_event =
    HdrWrite int FileHeader
  | DirWrite int directory
  | MapWrite int bitmap

text \<open>The \<^verbatim>\<open>FileSystem\<close> object and what it acts on. \<open>freeMapFile\<close>,
  \<open>directoryFile\<close>, \<open>sysOpFileTable\<close> and \<open>fdPosition\<close> are its members;
  \<open>sysOpFileTable\<close> maps a descriptor to a handle, a null pointer and an absent key both
  being \<open>None\<close>. \<open>dsk\<close> is the disk, \<open>live\<close> the addresses of the \<^verbatim>\<open>OpenFile\<close>
  objects allocated and not yet deleted, \<open>writes\<close> the list of every \<^verbatim>\<open>WriteBack\<close>
  performed so far, oldest first.\<close>

record FileSystem =
  freeMapFile :: OpenFile
  directoryFile :: OpenFile
  sysOpFileTable :: "int \<Rightarrow> OpenFile option"
  fdPosition :: int
  dsk :: disk
  live :: "nat list"
  writes :: "write_event list"

text \<open>Every way in which the code stops without returning: a failed \<^verbatim>\<open>ASSERT\<close>,
  a member call through a null \<^verbatim>\<open>OpenFile*\<close>, a read of a name that has been
  deleted, a write past the \<^verbatim>\<open>NAME_SIZE\<close> buffer.\<close>

datatype error = AssertFailed | NullDeref | FreedName | NameOverflow

subsection \<open>PersistentBitmap\<close>

text \<open>Modelled from the spec: \<^verbatim>\<open>PersistentBitmap::FindAndSet\<close> (pbitmap.cc, bitmap.cc are
  not among the sources). It returns the lowest-numbered clear sector and marks it, or the
  sentinel \<open>-1\<close> when every sector is allocated.\<close>

fun FindAndSet :: "bitmap \<Rightarrow> int \<times> bitmap" where
  "FindAndSet [] = (-1, [])"
| "FindAndSet (b # bs) =
     (if \<not> b then (0, True # bs)
      else (case FindAndSet bs of (i, bs') \<Rightarrow> (if i = -1 then -1 else i + 1, b # bs')))"

text \<open>Modelled from the spec: \<^verbatim>\<open>Bitmap::Clear\<close>, which clears the bit of a sector
  unconditionally. A sector number outside the bitmap has no bit to clear.\<close>

definition Clear :: "bitmap \<Rightarrow> int \<Rightarrow> bitmap" where
  "Clear freeMap which =
     (if 0 \<le> which \<and> nat which < length freeMap then freeMap[nat which := False]
      else freeMap)"

text \<open>Modelled from the spec: the constructor \<^verbatim>\<open>PersistentBitmap(file, NumSectors)\<close>
  loads the bit vector from the content of the backing file, and \<^verbatim>\<open>WriteBack(file)\<close>
  stores it there.\<close>

definition Bitmap_FetchFrom :: "FileSystem \<Rightarrow> OpenFile \<Rightarrow> bitmap" where
  "Bitmap_FetchFrom fs file = maps (dsk fs) (hdrSector file)"

definition Bitmap_WriteBack :: "bitmap \<Rightarrow> OpenFile \<Rightarrow> FileSystem \<Rightarrow> FileSystem" where
  "Bitmap_WriteBack freeMap file fs =
     fs\<lparr>dsk := (dsk fs)\<lparr>maps := (maps (dsk fs))(hdrSector file := freeMap)\<rparr>,
        writes := writes fs @ [MapWrite (hdrSector file) freeMap]\<rparr>"

subsection \<open>FileHeader\<close>

text \<open>Modelled from the spec: \<^verbatim>\<open>FileHeader::Allocate\<close> (filehdr.cc is not among the
  sources). It computes the number of sectors \<open>ceil(size / sectorSize)\<close>, calls
  \<open>FindAndSet\<close> that many times, records each sector in order, and fails as soon as a call
  returns "none"; the sectors claimed before are not un-marked. The sector size is a
  constant of disk.h, taken as a parameter.\<close>

fun claim :: "nat \<Rightarrow> bitmap \<Rightarrow> int list \<Rightarrow> bool \<times> int list \<times> bitmap" where
  "claim 0 freeMap acc = (True, acc, freeMap)"
| "claim (Suc n) freeMap acc =
     (case FindAndSet freeMap of (s, freeMap') \<Rightarrow>
        if s = -1 then (False, acc, freeMap') else claim n freeMap' (acc @ [s]))"

definition divRoundUp :: "int \<Rightarrow> int \<Rightarrow> int" where
  "divRoundUp n s = - ((- n) div s)"

definition Allocate :: "int \<Rightarrow> bitmap \<Rightarrow> int \<Rightarrow> bool \<times> FileHeader \<times> bitmap" where
  "Allocate SectorSize freeMap fileSize =
     (case claim (nat (divRoundUp fileSize SectorSize)) freeMap [] of
        (ok, secs, freeMap') \<Rightarrow> (ok, \<lparr>numBytes = fileSize, dataSectors = secs\<rparr>, freeMap'))"

text \<open>Modelled from the spec: \<^verbatim>\<open>FileHeader::Deallocate\<close> clears every recorded data
  sector in the bitmap, and not the sector of the header itself.\<close>

definition Deallocate :: "FileHeader \<Rightarrow> bitmap \<Rightarrow> bitmap" where
  "Deallocate hdr freeMap = fold (\<lambda>s bm. Clear bm s) (dataSectors hdr) freeMap"

text \<open>Modelled from the spec: \<^verbatim>\<open>FileHeader::FetchFrom(sector)\<close> and
  \<^verbatim>\<open>WriteBack(sector)\<close> load and store the record at a sector.\<close>

definition Hdr_FetchFrom :: "FileSystem \<Rightarrow> int \<Rightarrow> FileHeader" where
  "Hdr_FetchFrom fs sector = hdrs (dsk fs) sector"

definition Hdr_WriteBack :: "FileHeader \<Rightarrow> int \<Rightarrow> FileSystem \<Rightarrow> FileSystem" where
  "Hdr_WriteBack hdr sector fs =
     fs\<lparr>dsk := (dsk fs)\<lparr>hdrs := (hdrs (dsk fs))(sector := hdr)\<rparr>,
        writes := writes fs @ [HdrWrite sector hdr]\<rparr>"

subsection \<open>Directory\<close>

text \<open>Modelled from the spec: the class \<^verbatim>\<open>Directory\<close> (directory.cc is not among the
  sources): a table of a fixed number of entries, none in use when constructed.\<close>

definition Directory_new :: "nat \<Rightarrow> directory" where
  "Directory_new tableSize = replicate tableSize \<lparr>inUse = False, e_sector = 0, e_name = []\<rparr>"

text \<open>Modelled from the spec: \<^verbatim>\<open>Directory::FetchFrom(file)\<close> loads the entry table from
  the content of a file into a table of \<open>NumDirEntries\<close> entries (the only size the code
  constructs), and \<^verbatim>\<open>WriteBack(file)\<close> stores the table there.\<close>

definition Dir_FetchFrom :: "FileSystem \<Rightarrow> OpenFile \<Rightarrow> directory" where
  "Dir_FetchFrom fs file =
     take NumDirEntries (dirs (dsk fs) (hdrSector file) @ Directory_new NumDirEntries)"

definition Dir_WriteBack :: "directory \<Rightarrow> OpenFile \<Rightarrow> FileSystem \<Rightarrow> FileSystem" where
  "Dir_WriteBack directory file fs =
     fs\<lparr>dsk := (dsk fs)\<lparr>dirs := (dirs (dsk fs))(hdrSector file := directory)\<rparr>,
        writes := writes fs @ [DirWrite (hdrSector file) directory]\<rparr>"

text \<open>Modelled from the spec: \<^verbatim>\<open>Directory::Find\<close>, a linear scan for an in-use entry
  whose name matches exactly; it returns the header sector of the entry, or \<open>-1\<close>.\<close>

fun Find :: "directory \<Rightarrow> string \<Rightarrow> int" where
  "Find [] name = -1"
| "Find (e # es) name = (if inUse e \<and> e_name e = name then e_sector e else Find es name)"

text \<open>Modelled from the spec: \<^verbatim>\<open>Directory::Add\<close> fails if an entry with the name exists
  or if no slot is free, and otherwise occupies the first free slot.\<close>

fun occupy :: "directory \<Rightarrow> string \<Rightarrow> int \<Rightarrow> bool \<times> directory" where
  "occupy [] name newSector = (False, [])"
| "occupy (e # es) name newSector =
     (if \<not> inUse e then (True, \<lparr>inUse = True, e_sector = newSector, e_name = name\<rparr> # es)
      else (case occupy es name newSector of (ok, es') \<Rightarrow> (ok, e # es')))"

definition Add :: "directory \<Rightarrow> string \<Rightarrow> int \<Rightarrow> bool \<times> directory" where
  "Add directory name newSector =
     (if list_ex (\<lambda>e. inUse e \<and> e_name e = name) directory then (False, directory)
      else occupy directory name newSector)"

text \<open>Modelled from the spec: \<^verbatim>\<open>Directory::Remove\<close> marks the matching entry
  not-in-use, and fails if there is none.\<close>

fun Dir_Remove :: "directory \<Rightarrow> string \<Rightarrow> bool \<times> directory" where
  "Dir_Remove [] name = (False, [])"
| "Dir_Remove (e # es) name =
     (if inUse e \<and> e_name e = name then (True, e\<lparr>inUse := False\<rparr> # es)
      else (case Dir_Remove es name of (ok, es') \<Rightarrow> (ok, e # es')))"

subsection \<open>OpenFile objects\<close>

text \<open>Modelled from the spec: \<^verbatim>\<open>new OpenFile(sector)\<close> makes a handle bound to a
  header sector, at an address that no live object and neither of the two root handles
  has; \<^verbatim>\<open>delete\<close> releases the object at an address.\<close>

definition new_OpenFile :: "int \<Rightarrow> FileSystem \<Rightarrow> OpenFile \<times> FileSystem" where
  "new_OpenFile sector fs =
     (let a = Suc (fold max (addr (freeMapFile fs) # addr (directoryFile fs) # live fs) 0)
      in (\<lparr>addr = a, hdrSector = sector, fdTag = None\<rparr>, fs\<lparr>live := live fs @ [a]\<rparr>))"

definition delete_OpenFile :: "OpenFile \<Rightarrow> FileSystem \<Rightarrow> FileSystem" where
  "delete_OpenFile file fs = fs\<lparr>live := removeAll (addr file) (live fs)\<rparr>"

subsection \<open>Path resolution\<close>

text \<open>\<^verbatim>\<open>IsDir\<close>: \<^verbatim>\<open>name[strlen(name)-1] == '/'\<close>. Every name the code passes is a
  component made by \<^verbatim>\<open>PreprocessPath\<close>, which is never empty.\<close>

definition IsDir :: "string \<Rightarrow> bool" where
  "IsDir name = (name \<noteq> [] \<and> last name = CHR ''/'')"

text \<open>The loop of \<^verbatim>\<open>PreprocessPath\<close>: the characters of the path are copied into the
  current component, which is closed and pushed at every \<^verbatim>\<open>'/'\<close> and at the last
  character. The first argument is the component under construction.\<close>

fun components :: "string \<Rightarrow> string \<Rightarrow> string list" where
  "components name [] = []"
| "components name (c # cs) =
     (if c = CHR ''/'' \<or> cs = [] then (name @ [c]) # components [] cs
      else components (name @ [c]) cs)"

text \<open>\<^verbatim>\<open>PreprocessPath\<close>: each component lives in a buffer of \<open>NAME_SIZE\<close> characters,
  terminator included; a longer component is written past its buffer.\<close>

definition PreprocessPath :: "string \<Rightarrow> error + string list" where
  "PreprocessPath path =
     (let pathQueue = components [] path
      in if list_ex (\<lambda>name. NAME_SIZE \<le> length name) pathQueue then Inl NameOverflow
         else Inr pathQueue)"

text \<open>The loop of \<^verbatim>\<open>GoDirectory\<close>. The fourth argument is \<^verbatim>\<open>*name\<close> together
  with whether that string is still allocated: the loop deletes the component at the end of
  every iteration it does not leave through \<^verbatim>\<open>break\<close>. The result is \<^verbatim>\<open>*name\<close>,
  whether it is allocated, and the handle returned (\<open>None\<close> for a null pointer).\<close>

fun GoLoop :: "FileSystem \<Rightarrow> directory \<Rightarrow> OpenFile option \<Rightarrow> string \<times> bool \<Rightarrow> string list
    \<Rightarrow> error + (string \<times> bool \<times> OpenFile option \<times> FileSystem)" where
  "GoLoop fs directory dirFile nm [] = Inr (fst nm, snd nm, dirFile, fs)"
| "GoLoop fs directory dirFile nm (name # pathQueue) =
     (if name = ''/'' then
        GoLoop fs (Dir_FetchFrom fs (directoryFile fs)) (Some (directoryFile fs))
          (name, False) pathQueue
      else if IsDir name then
        (let subDirSector = Find directory name in
         if subDirSector = -1 then
           (if pathQueue = [] then Inr (name, True, dirFile, fs) else Inl AssertFailed)
         else if pathQueue = [] then Inr (name, True, dirFile, fs)
         else
           (case new_OpenFile subDirSector
                   (case dirFile of
                      None \<Rightarrow> fs
                    | Some f \<Rightarrow>
                        if addr f \<noteq> addr (directoryFile fs) then delete_OpenFile f fs else fs)
            of (dirFile', fs') \<Rightarrow>
              GoLoop fs' (Dir_FetchFrom fs' dirFile') (Some dirFile') (name, False) pathQueue))
      else (if pathQueue = [] then Inr (name, True, dirFile, fs) else Inl AssertFailed))"

definition GoDirectory :: "FileSystem \<Rightarrow> string
    \<Rightarrow> error + (string \<times> bool \<times> OpenFile option \<times> FileSystem)" where
  "GoDirectory fs path =
     (case PreprocessPath path of
        Inl e \<Rightarrow> Inl e
      | Inr pathQueue \<Rightarrow> GoLoop fs (Directory_new NumDirEntries) None (path, True) pathQueue)"

subsection \<open>Create\<close>

text \<open>\<^verbatim>\<open>FileSystem::Create\<close>. The result is \<open>Inr (success, fs')\<close> when the call
  returns, \<open>Inl\<close> when it stops: \<^verbatim>\<open>directory->FetchFrom(dirFile)\<close> goes through
  \<^verbatim>\<open>dirFile\<close>, and \<^verbatim>\<open>directory->Find(name)\<close> reads \<^verbatim>\<open>name\<close>. The sector
  size used by \<^verbatim>\<open>FileHeader::Allocate\<close> is the first argument.\<close>

definition Create :: "int \<Rightarrow> FileSystem \<Rightarrow> string \<Rightarrow> int \<Rightarrow> error + (bool \<times> FileSystem)" where
  "Create SectorSize fs path initialSize =
     (case GoDirectory fs path of
        Inl e \<Rightarrow> Inl e
      | Inr (name, nameLive, dirFileOpt, fs1) \<Rightarrow>
         (case dirFileOpt of
            None \<Rightarrow> Inl NullDeref
          | Some dirFile \<Rightarrow>
             (let directory = Dir_FetchFrom fs1 dirFile in
              if \<not> nameLive then Inl FreedName
              else if Find directory name \<noteq> -1 then Inr (False, fs1)
              else
                (case FindAndSet (Bitmap_FetchFrom fs1 (freeMapFile fs1)) of
                   (sector, freeMap) \<Rightarrow>
                     if sector = -1 then Inr (False, fs1)
                     else
                       (case Add directory name sector of
                          (added, directory') \<Rightarrow>
                            if \<not> added then Inr (False, fs1)
                            else
                              (case Allocate SectorSize freeMap initialSize of
                                 (allocated, hdr, freeMap') \<Rightarrow>
                                   if \<not> allocated then Inr (False, fs1)
                                   else
                                     (let fs2 = Hdr_WriteBack hdr sector fs1;
                                          fs3 = Dir_WriteBack directory' dirFile fs2;
                                          fs4 =
                                            (if IsDir name then
                                               (case new_OpenFile sector fs3 of
                                                  (newDirFile, fs') \<Rightarrow>
                                                    delete_OpenFile newDirFile
                                                      (Dir_WriteBack (Directory_new NumDirEntries)
                                                         newDirFile fs'))
                                             else fs3);
                                          fs5 =
                                            (if addr dirFile \<noteq> addr (directoryFile fs4)
                                             then delete_OpenFile dirFile fs4 else fs4)
                                      in Inr (True,
                                           Bitmap_WriteBack freeMap' (freeMapFile fs5) fs5))))))))"

subsection \<open>The system-wide table of open files\<close>

text \<open>\<^verbatim>\<open>GetOpenFileTable\<close> and \<^verbatim>\<open>SetOpenFileTable\<close>.\<close>

definition GetOpenFileTable :: "FileSystem \<Rightarrow> int \<Rightarrow> OpenFile option" where
  "GetOpenFileTable fs fd = sysOpFileTable fs fd"

definition SetOpenFileTable :: "FileSystem \<Rightarrow> int \<Rightarrow> OpenFile option \<Rightarrow> FileSystem" where
  "SetOpenFileTable fs fd openFile = fs\<lparr>sysOpFileTable := (sysOpFileTable fs)(fd := openFile)\<rparr>"

text \<open>The loop of \<^verbatim>\<open>GetSysFd\<close>: \<^verbatim>\<open>while(i<N){ fd = (fd+i)%N; if(table[fd]==NULL)
  return fd; i++; }\<close>, with C's remainder. \<open>N\<close> is \<^verbatim>\<open>SYS_MAX_OPEN_FILE_NUM\<close>, a constant
  of filesys.h taken as a parameter. The result is the descriptor found, if any.\<close>

function GetSysFd_loop :: "int \<Rightarrow> (int \<Rightarrow> OpenFile option) \<Rightarrow> int \<Rightarrow> int \<Rightarrow> int option" where
  "GetSysFd_loop N table i fd =
     (if i < N then
        (if table ((fd + i) smod N) = None then Some ((fd + i) smod N)
         else GetSysFd_loop N table (i + 1) ((fd + i) smod N))
      else None)"
  by pat_completeness auto
termination
  by (relation "measure (\<lambda>(N, table, i, fd). nat (N - i))") auto

declare GetSysFd_loop.simps [simp del]

text \<open>\<^verbatim>\<open>GetSysFd\<close>: \<open>Some fd\<close> is the return value \<^verbatim>\<open>TRUE\<close> with \<^verbatim>\<open>*fdout = fd\<close>,
  \<open>None\<close> the return value \<^verbatim>\<open>FALSE\<close>.\<close>

definition GetSysFd :: "int \<Rightarrow> FileSystem \<Rightarrow> int option \<times> FileSystem" where
  "GetSysFd N fs =
     (case GetSysFd_loop N (sysOpFileTable fs) 0 (fdPosition fs) of
        Some fd \<Rightarrow> (Some fd, fs\<lparr>fdPosition := fd + 1\<rparr>)
      | None \<Rightarrow> (None, fs))"

text \<open>\<^verbatim>\<open>FileSystem::Read\<close> and \<^verbatim>\<open>FileSystem::Write\<close>. The byte-range operations of
  the class \<^verbatim>\<open>OpenFile\<close> are collaborators, taken as parameters: \<open>opRead file size fs\<close>
  gives the count returned, the bytes put into the buffer and the state after it;
  \<open>opWrite file buf size fs\<close> the count returned and the state after it.\<close>

definition Read :: "(OpenFile \<Rightarrow> int \<Rightarrow> FileSystem \<Rightarrow> int \<times> string \<times> FileSystem)
    \<Rightarrow> FileSystem \<Rightarrow> string \<Rightarrow> int \<Rightarrow> int \<Rightarrow> int \<times> string \<times> FileSystem" where
  "Read opRead fs buf size' fd =
     (case GetOpenFileTable fs fd of
        Some opFile \<Rightarrow> opRead opFile size' fs
      | None \<Rightarrow> (-1, buf, fs))"

definition Write :: "(OpenFile \<Rightarrow> string \<Rightarrow> int \<Rightarrow> FileSystem \<Rightarrow> int \<times> FileSystem)
    \<Rightarrow> FileSystem \<Rightarrow> string \<Rightarrow> int \<Rightarrow> int \<Rightarrow> int \<times> FileSystem" where
  "Write opWrite fs buf size' fd =
     (case GetOpenFileTable fs fd of
        Some opFile \<Rightarrow> opWrite opFile buf size' fs
      | None \<Rightarrow> (-1, fs))"

text \<open>\<^verbatim>\<open>FileSystem::Seek\<close>: \<^verbatim>\<open>return 1;\<close>.\<close>

definition Seek :: "FileSystem \<Rightarrow> int \<Rightarrow> int \<Rightarrow> int \<times> FileSystem" where
  "Seek fs position fd = (1, fs)"

text \<open>\<^verbatim>\<open>FileSystem::Close\<close>: look the handle up, erase the key, delete the handle
  (deleting a null pointer does nothing), return 1.\<close>

definition Close :: "FileSystem \<Rightarrow> int \<Rightarrow> int \<times> FileSystem" where
  "Close fs fd =
     (let opFile = GetOpenFileTable fs fd;
          fs1 = fs\<lparr>sysOpFileTable := (sysOpFileTable fs)(fd := None)\<rparr>
      in (1, case opFile of None \<Rightarrow> fs1 | Some file \<Rightarrow> delete_OpenFile file fs1))"

subsection \<open>Open\<close>

text \<open>\<^verbatim>\<open>FileSystem::Open\<close>. \<open>Inr (Some file, fs')\<close> is the handle returned,
  \<open>Inr (None, fs')\<close> the return value \<^verbatim>\<open>NULL\<close>.\<close>

definition Open :: "int \<Rightarrow> FileSystem \<Rightarrow> string \<Rightarrow> error + (OpenFile option \<times> FileSystem)" where
  "Open N fs path =
     (case GoDirectory fs path of
        Inl e \<Rightarrow> Inl e
      | Inr (name, nameLive, dirFileOpt, fs1) \<Rightarrow>
         (case dirFileOpt of
            None \<Rightarrow> Inl NullDeref
          | Some dirFile \<Rightarrow>
             (let directory = Dir_FetchFrom fs1 dirFile;
                  fs2 = (if addr dirFile \<noteq> addr (directoryFile fs1)
                         then delete_OpenFile dirFile fs1 else fs1)
              in if \<not> nameLive then Inl FreedName
                 else if IsDir name then Inr (None, fs2)
                 else
                   (let sector = Find directory name in
                    if 0 \<le> sector then
                      (case new_OpenFile sector fs2 of
                         (openFile, fs3) \<Rightarrow>
                           (case GetSysFd N fs3 of
                              (Some fd, fs4) \<Rightarrow> Inr (Some (openFile\<lparr>fdTag := Some fd\<rparr>), fs4)
                            | (None, fs4) \<Rightarrow> Inr (None, delete_OpenFile openFile fs4)))
                    else Inr (None, fs2)))))"

subsection \<open>Remove\<close>

text \<open>\<^verbatim>\<open>FileSystem::Remove(name, recurRemoveFlag)\<close>.

  Modelled from the spec: \<^verbatim>\<open>Directory::RecRemove\<close> (directory.cc is not among the
  sources) reclaims the entries of a directory table in the bitmap it is given and returns
  an aggregate success flag. What makes a reclamation fail is not written down, so it is
  the first argument here: \<open>RecRemove fs subDir freeMap\<close> gives the flag, the table, the
  bitmap and the state after the call, and \<open>Remove\<close> is the code for any such
  function.\<close>

definition Remove ::
  "(FileSystem \<Rightarrow> directory \<Rightarrow> bitmap \<Rightarrow> bool \<times> directory \<times> bitmap \<times> FileSystem)
    \<Rightarrow> FileSystem \<Rightarrow> string \<Rightarrow> bool \<Rightarrow> error + (bool \<times> FileSystem)" where
  "Remove RecRemove fs path recurRemoveFlag =
     (case GoDirectory fs path of
        Inl e \<Rightarrow> Inl e
      | Inr (name, nameLive, dirFileOpt, fs1) \<Rightarrow>
         (case dirFileOpt of
            None \<Rightarrow> Inl NullDeref
          | Some dirFile \<Rightarrow>
             (let directory = Dir_FetchFrom fs1 dirFile in
              if \<not> nameLive then Inl FreedName
              else
                (let sector = Find directory name in
                 if sector = -1 then Inr (False, fs1)
                 else
                   (case
                      (if recurRemoveFlag \<and> IsDir name then
                         (case new_OpenFile sector fs1 of
                            (subDirFile, fsa) \<Rightarrow>
                              (case RecRemove fsa (Dir_FetchFrom fsa subDirFile)
                                      (Bitmap_FetchFrom fs1 (freeMapFile fs1)) of
                                 (ok, subDir', freeMap', fsb) \<Rightarrow>
                                   (ok, freeMap',
                                    delete_OpenFile subDirFile
                                      (Dir_WriteBack subDir' subDirFile fsb))))
                       else (True, Bitmap_FetchFrom fs1 (freeMapFile fs1), fs1))
                    of (success, freeMap, fs2) \<Rightarrow>
                      (let fileHdr = Hdr_FetchFrom fs2 sector;
                           freeMap1 = Deallocate fileHdr freeMap;
                           freeMap2 = Clear freeMap1 sector;
                           directory' = snd (Dir_Remove directory name);
                           fs3 = Bitmap_WriteBack freeMap2 (freeMapFile fs2) fs2;
                           fs4 = Dir_WriteBack directory' dirFile fs3;
                           fs5 = (if addr dirFile \<noteq> addr (directoryFile fs4)
                                  then delete_OpenFile dirFile fs4 else fs4)
                       in Inr (success, fs5)))))))"

subsection \<open>The effect of a write on the disk\<close>

text \<open>What one logged \<^verbatim>\<open>WriteBack\<close> does to the disk.\<close>

definition apply_write :: "write_event \<Rightarrow> disk \<Rightarrow> disk" where
  "apply_write w d =
     (case w of
        HdrWrite sector hdr \<Rightarrow> d\<lparr>hdrs := (hdrs d)(sector := hdr)\<rparr>
      | DirWrite sector directory \<Rightarrow> d\<lparr>dirs := (dirs d)(sector := directory)\<rparr>
      | MapWrite sector freeMap \<Rightarrow> d\<lparr>maps := (maps d)(sector := freeMap)\<rparr>)"

subsection \<open>The scan of the descriptor table as the specification words it\<close>

text \<open>The specification's scan: the first free slot among the positions \<open>start\<close>,
  \<open>start + 1\<close>, \<dots>, taken modulo the capacity \<open>N\<close>. It is compared with
  \<open>GetSysFd_loop\<close>, which is the code.\<close>

definition linear_scan_spec :: "int \<Rightarrow> (int \<Rightarrow> OpenFile option) \<Rightarrow> int \<Rightarrow> int option" where
  "linear_scan_spec N table start =
     find (\<lambda>fd. table fd = None) (map (\<lambda>i. (start + int i) mod N) [0..<nat N])"

subsection \<open>Live handles after path resolution\<close>

text \<open>\<open>only_extra live0 fs dirFile\<close>: compared with the addresses \<open>live0\<close>, the only
  object that is live in \<open>fs\<close> in addition is the handle \<open>dirFile\<close>, and that only if it
  is not the root directory handle.\<close>

definition only_extra :: "nat list \<Rightarrow> FileSystem \<Rightarrow> OpenFile option \<Rightarrow> bool" where
  "only_extra live0 fs dirFile =
     (case dirFile of
        None \<Rightarrow> live fs = live0
      | Some f \<Rightarrow>
          if addr f = addr (directoryFile fs) then live fs = live0
          else addr f \<notin> set live0 \<and> live fs = live0 @ [addr f])"

subsection \<open>Example states\<close>

text \<open>A disk of twelve sectors. Sector 0 holds the header of the bitmap file, sector 1 the
  header of the root directory. The root directory holds the directory \<open>a/\<close> (header in
  sector 4, content in sector 5) and the file \<open>f\<close> (header in sector 6, content in
  sector 7); \<open>a/\<close> holds the empty file \<open>g\<close> (header in sector 8). Sectors 9 to 11
  are free.\<close>

definition ex_disk :: disk where
  "ex_disk =
     \<lparr>hdrs = (\<lambda>s. if s = 0 then \<lparr>numBytes = 2, dataSectors = [2]\<rparr>
                 else if s = 1 then \<lparr>numBytes = 200, dataSectors = [3]\<rparr>
                 else if s = 4 then \<lparr>numBytes = 200, dataSectors = [5]\<rparr>
                 else if s = 6 then \<lparr>numBytes = 100, dataSectors = [7]\<rparr>
                 else \<lparr>numBytes = 0, dataSectors = []\<rparr>),
      dirs = (\<lambda>s. if s = 1 then [\<lparr>inUse = True, e_sector = 4, e_name = ''a/''\<rparr>,
                                  \<lparr>inUse = True, e_sector = 6, e_name = ''f''\<rparr>]
                 else if s = 4 then [\<lparr>inUse = True, e_sector = 8, e_name = ''g''\<rparr>]
                 else []),
      maps = (\<lambda>s. if s = 0
                 then [True, True, True, True, True, True, True, True, True, False, False, False]
                 else [])\<rparr>"

definition ex_fs :: FileSystem where
  "ex_fs =
     \<lparr>freeMapFile = \<lparr>addr = 0, hdrSector = 0, fdTag = None\<rparr>,
      directoryFile = \<lparr>addr = 1, hdrSector = 1, fdTag = None\<rparr>,
      sysOpFileTable = (\<lambda>fd. None), fdPosition = 0,
      dsk = ex_disk, live = [0, 1], writes = []\<rparr>"

text \<open>The same with no free sector, and with a root directory whose ten entries are in use.\<close>

definition ex_fs_full :: FileSystem where
  "ex_fs_full = ex_fs\<lparr>dsk := ex_disk\<lparr>maps := (\<lambda>s. replicate 12 True)\<rparr>\<rparr>"

definition ex_fs_dirfull :: FileSystem where
  "ex_fs_dirfull =
     ex_fs\<lparr>dsk := ex_disk\<lparr>dirs :=
       (\<lambda>s. map (\<lambda>c. \<lparr>inUse = True, e_sector = 6, e_name = [c]\<rparr>) ''0123456789'')\<rparr>\<rparr>"

text \<open>A table of twenty descriptors in which all but 2 and 3 are bound, the last one
  granted being 19.\<close>

definition ex_fs_open :: FileSystem where
  "ex_fs_open =
     ex_fs\<lparr>sysOpFileTable :=
             (\<lambda>fd. if 0 \<le> fd \<and> fd < 20 \<and> fd \<noteq> 2 \<and> fd \<noteq> 3
                   then Some \<lparr>addr = nat fd + 2, hdrSector = 6, fdTag = Some fd\<rparr> else None),
           fdPosition := 20,
           live := [0, 1, 2, 3, 6, 7, 8, 9, 10, 11, 12, 13, 14, 15, 16, 17, 18, 19, 20, 21]\<rparr>"


text \<open>Byte-range operations of a handle, and a recursive reclamation that frees the header
  sectors of the entries of a table and reports failure.\<close>

definition ex_opRead :: "OpenFile \<Rightarrow> int \<Rightarrow> FileSystem \<Rightarrow> int \<times> string \<times> FileSystem" where
  "ex_opRead file size' fs = (size', replicate (nat size') CHR ''x'', fs)"

definition ex_opWrite :: "OpenFile \<Rightarrow> string \<Rightarrow> int \<Rightarrow> FileSystem \<Rightarrow> int \<times> FileSystem" where
  "ex_opWrite file buf size' fs = (size', fs)"

definition ex_RecRemove ::
  "FileSystem \<Rightarrow> directory \<Rightarrow> bitmap \<Rightarrow> bool \<times> directory \<times> bitmap \<times> FileSystem" where
  "ex_RecRemove fs subDir freeMap =
     (False, map (\<lambda>e. e\<lparr>inUse := False\<rparr>) subDir,
      fold (\<lambda>e bm. Clear bm (e_sector e)) (filter inUse subDir) freeMap, fs)"

section \<open>Properties\<close>

subsection \<open>Writes, handles and the frame of path resolution\<close>

lemma apply_write_other:
  "hdrs (apply_write (DirWrite sector directory) d) = hdrs d"
  "hdrs (apply_write (MapWrite sector freeMap) d) = hdrs d"
  "dirs (apply_write (HdrWrite sector hdr) d) = dirs d"
  "dirs (apply_write (MapWrite sector freeMap) d) = dirs d"
  "maps (apply_write (HdrWrite sector hdr) d) = maps d"
  "maps (apply_write (DirWrite sector directory) d) = maps d"
  by (simp_all add: apply_write_def)

lemma Hdr_WriteBack_simps:
  "dsk (Hdr_WriteBack hdr sector fs) = apply_write (HdrWrite sector hdr) (dsk fs)"
  "writes (Hdr_WriteBack hdr sector fs) = writes fs @ [HdrWrite sector hdr]"
  "live (Hdr_WriteBack hdr sector fs) = live fs"
  "freeMapFile (Hdr_WriteBack hdr sector fs) = freeMapFile fs"
  "directoryFile (Hdr_WriteBack hdr sector fs) = directoryFile fs"
  by (simp_all add: Hdr_WriteBack_def apply_write_def)

lemma Dir_WriteBack_simps:
  "dsk (Dir_WriteBack directory file fs) = apply_write (DirWrite (hdrSector file) directory) (dsk fs)"
  "writes (Dir_WriteBack directory file fs) = writes fs @ [DirWrite (hdrSector file) directory]"
  "live (Dir_WriteBack directory file fs) = live fs"
  "freeMapFile (Dir_WriteBack directory file fs) = freeMapFile fs"
  "directoryFile (Dir_WriteBack directory file fs) = directoryFile fs"
  by (simp_all add: Dir_WriteBack_def apply_write_def)

lemma Bitmap_WriteBack_simps:
  "dsk (Bitmap_WriteBack freeMap file fs) = apply_write (MapWrite (hdrSector file) freeMap) (dsk fs)"
  "writes (Bitmap_WriteBack freeMap file fs) = writes fs @ [MapWrite (hdrSector file) freeMap]"
  "live (Bitmap_WriteBack freeMap file fs) = live fs"
  "freeMapFile (Bitmap_WriteBack freeMap file fs) = freeMapFile fs"
  "directoryFile (Bitmap_WriteBack freeMap file fs) = directoryFile fs"
  by (simp_all add: Bitmap_WriteBack_def apply_write_def)

lemma new_OpenFile_simps:
  "dsk (snd (new_OpenFile sector fs)) = dsk fs"
  "writes (snd (new_OpenFile sector fs)) = writes fs"
  "freeMapFile (snd (new_OpenFile sector fs)) = freeMapFile fs"
  "directoryFile (snd (new_OpenFile sector fs)) = directoryFile fs"
  "hdrSector (fst (new_OpenFile sector fs)) = sector"
  by (simp_all add: new_OpenFile_def Let_def)

lemma delete_OpenFile_simps:
  "dsk (delete_OpenFile file fs) = dsk fs"
  "writes (delete_OpenFile file fs) = writes fs"
  "freeMapFile (delete_OpenFile file fs) = freeMapFile fs"
  "directoryFile (delete_OpenFile file fs) = directoryFile fs"
  by (simp_all add: delete_OpenFile_def)

lemmas io_simps = Hdr_WriteBack_simps Dir_WriteBack_simps Bitmap_WriteBack_simps
  new_OpenFile_simps delete_OpenFile_simps

text \<open>Path resolution reads the disk and allocates or releases handles; it changes nothing
  else.\<close>

lemma GoLoop_frame:
  "GoLoop fs d df nm q = Inr (n, l, r, fs') \<Longrightarrow>
     dsk fs' = dsk fs \<and> writes fs' = writes fs \<and> freeMapFile fs' = freeMapFile fs \<and>
     directoryFile fs' = directoryFile fs \<and> sysOpFileTable fs' = sysOpFileTable fs \<and>
     fdPosition fs' = fdPosition fs"
proof (induction q arbitrary: fs d df nm)
  case Nil
  then show ?case by simp
next
  case (Cons name q)
  show ?case
  proof (cases "name = ''/''")
    case True
    with Cons.prems Cons.IH show ?thesis by simp
  next
    case False
    show ?thesis
    proof (cases "IsDir name \<and> Find d name \<noteq> -1 \<and> q \<noteq> []")
      case True
      obtain f fs1 where nf: "new_OpenFile (Find d name)
                   (case df of
                      None \<Rightarrow> fs
                    | Some f \<Rightarrow>
                        if addr f \<noteq> addr (directoryFile fs) then delete_OpenFile f fs else fs) = (f, fs1)"
        by (cases "new_OpenFile (Find d name)
                   (case df of
                      None \<Rightarrow> fs
                    | Some f \<Rightarrow>
                        if addr f \<noteq> addr (directoryFile fs) then delete_OpenFile f fs else fs)") 
      from Cons.prems False True nf
      have "GoLoop fs1 (Dir_FetchFrom fs1 f) (Some f) (name, False) q = Inr (n, l, r, fs')"
        by (simp add: Let_def)
      from Cons.IH [OF this] nf show ?thesis
        by (auto simp: new_OpenFile_def delete_OpenFile_def Let_def split: option.splits if_splits)
    next
      case F2: False
      with Cons.prems False show ?thesis
        by (auto simp: Let_def split: if_splits)
    qed
  qed
qed

lemma GoDirectory_frame:
  "GoDirectory fs path = Inr (n, l, r, fs') \<Longrightarrow>
     dsk fs' = dsk fs \<and> writes fs' = writes fs \<and> freeMapFile fs' = freeMapFile fs \<and>
     directoryFile fs' = directoryFile fs \<and> sysOpFileTable fs' = sysOpFileTable fs \<and>
     fdPosition fs' = fdPosition fs"
  unfolding GoDirectory_def
  by (auto split: sum.splits dest: GoLoop_frame)

text \<open>A new handle has an address that nothing live has.\<close>

lemma fold_max_ge: "(m::nat) \<le> fold max xs m"
  by (induction xs arbitrary: m) (auto intro: order_trans [OF max.cobounded2])

lemma fold_max_mem: "x \<in> set xs \<Longrightarrow> (x::nat) \<le> fold max xs m"
proof (induction xs arbitrary: m)
  case Nil
  then show ?case by simp
next
  case (Cons y ys)
  show ?case
  proof (cases "x = y")
    case True
    have "y \<le> max y m" by simp
    also have "\<dots> \<le> fold max ys (max y m)" by (rule fold_max_ge)
    finally show ?thesis using True by simp
  next
    case False
    with Cons show ?thesis by simp
  qed
qed

lemma new_OpenFile_fresh:
  assumes "new_OpenFile sector fs = (file, fs')"
  shows "addr file \<notin> set (live fs)" "addr file \<noteq> addr (directoryFile fs)"
    "addr file \<noteq> addr (freeMapFile fs)" "live fs' = live fs @ [addr file]"
    "directoryFile fs' = directoryFile fs"
proof -
  let ?xs = "addr (freeMapFile fs) # addr (directoryFile fs) # live fs"
  from assms have a: "addr file = Suc (fold max ?xs 0)"
    and l: "live fs' = live fs @ [addr file]" and d: "directoryFile fs' = directoryFile fs"
    by (auto simp: new_OpenFile_def Let_def)
  have "\<And>x. x \<in> set ?xs \<Longrightarrow> x < addr file"
    unfolding a using fold_max_mem [of _ ?xs 0] by (simp add: less_Suc_eq_le)
  then show "addr file \<notin> set (live fs)" "addr file \<noteq> addr (directoryFile fs)"
    "addr file \<noteq> addr (freeMapFile fs)"
    by auto
  from l d show "live fs' = live fs @ [addr file]" "directoryFile fs' = directoryFile fs"
    by simp_all
qed

subsection \<open>Evaluating the example states\<close>

lemma ex_comp:
  "components [] ''/f'' = [''/'', ''f'']"
  "components [] ''/h'' = [''/'', ''h'']"
  "components [] ''/a/d/'' = [''/'', ''a/'', ''d/'']"
  "components [] ''/a//b'' = [''/'', ''a/'', ''/'', ''b'']"
  "components [] ''/a/'' = [''/'', ''a/'']"
  by simp_all

lemma ex_root: "Dir_FetchFrom ex_fs (directoryFile ex_fs) =
   [\<lparr>inUse = True, e_sector = 4, e_name = ''a/''\<rparr>, \<lparr>inUse = True, e_sector = 6, e_name = ''f''\<rparr>,
    \<lparr>inUse = False, e_sector = 0, e_name = []\<rparr>, \<lparr>inUse = False, e_sector = 0, e_name = []\<rparr>,
    \<lparr>inUse = False, e_sector = 0, e_name = []\<rparr>, \<lparr>inUse = False, e_sector = 0, e_name = []\<rparr>,
    \<lparr>inUse = False, e_sector = 0, e_name = []\<rparr>, \<lparr>inUse = False, e_sector = 0, e_name = []\<rparr>,
    \<lparr>inUse = False, e_sector = 0, e_name = []\<rparr>, \<lparr>inUse = False, e_sector = 0, e_name = []\<rparr>]"
  by (simp add: Dir_FetchFrom_def Directory_new_def NumDirEntries_def ex_fs_def ex_disk_def
      eval_nat_numeral)

lemma ex_sub: "Dir_FetchFrom (ex_fs\<lparr>live := l\<rparr>) \<lparr>addr = a, hdrSector = 4, fdTag = t\<rparr> =
   [\<lparr>inUse = True, e_sector = 8, e_name = ''g''\<rparr>,
    \<lparr>inUse = False, e_sector = 0, e_name = []\<rparr>,
    \<lparr>inUse = False, e_sector = 0, e_name = []\<rparr>, \<lparr>inUse = False, e_sector = 0, e_name = []\<rparr>,
    \<lparr>inUse = False, e_sector = 0, e_name = []\<rparr>, \<lparr>inUse = False, e_sector = 0, e_name = []\<rparr>,
    \<lparr>inUse = False, e_sector = 0, e_name = []\<rparr>, \<lparr>inUse = False, e_sector = 0, e_name = []\<rparr>,
    \<lparr>inUse = False, e_sector = 0, e_name = []\<rparr>, \<lparr>inUse = False, e_sector = 0, e_name = []\<rparr>]"
  by (simp add: Dir_FetchFrom_def Directory_new_def NumDirEntries_def ex_fs_def ex_disk_def
      eval_nat_numeral)

lemma ex_map: "Bitmap_FetchFrom (ex_fs\<lparr>live := l\<rparr>) (freeMapFile ex_fs) =
    [True, True, True, True, True, True, True, True, True, False, False, False]"
  "Bitmap_FetchFrom ex_fs (freeMapFile ex_fs) =
    [True, True, True, True, True, True, True, True, True, False, False, False]"
  by (simp_all add: Bitmap_FetchFrom_def ex_fs_def ex_disk_def)

lemma ex_hdr4: "Hdr_FetchFrom ex_fs 4 = \<lparr>numBytes = 200, dataSectors = [5]\<rparr>"
  by (simp add: Hdr_FetchFrom_def ex_fs_def ex_disk_def)

lemma ex_tab:
  "sysOpFileTable ex_fs_open 0 = Some \<lparr>addr = 2, hdrSector = 6, fdTag = Some 0\<rparr>"
  "sysOpFileTable ex_fs_open 1 = Some \<lparr>addr = 3, hdrSector = 6, fdTag = Some 1\<rparr>"
  "sysOpFileTable ex_fs_open 2 = None"
  "sysOpFileTable ex_fs_open 3 = None"
  "fdPosition ex_fs_open = 20"
  by (simp_all add: ex_fs_open_def)

lemma GoDirectory_root_h:
  "GoDirectory fs ''/h'' = Inr (''h'', True, Some (directoryFile fs), fs)"
  by (simp add: GoDirectory_def PreprocessPath_def NAME_SIZE_def IsDir_def)

lemma GoDirectory_root_f:
  "GoDirectory fs ''/f'' = Inr (''f'', True, Some (directoryFile fs), fs)"
  by (simp add: GoDirectory_def PreprocessPath_def NAME_SIZE_def IsDir_def)

lemma ex_go_f: "GoDirectory ex_fs ''/f'' = Inr (''f'', True, Some (directoryFile ex_fs), ex_fs)"
  by (simp add: GoDirectory_def PreprocessPath_def NAME_SIZE_def IsDir_def)

lemma ex_go_a: "GoDirectory ex_fs ''/a/'' = Inr (''a/'', True, Some (directoryFile ex_fs), ex_fs)"
  by (simp add: GoDirectory_def PreprocessPath_def NAME_SIZE_def IsDir_def ex_root)

lemma ex_go_ad: "GoDirectory ex_fs ''/a/d/'' =
    Inr (''d/'', True, Some \<lparr>addr = 2, hdrSector = 4, fdTag = None\<rparr>, ex_fs\<lparr>live := [0, 1, 2]\<rparr>)"
  by (simp add: GoDirectory_def PreprocessPath_def NAME_SIZE_def IsDir_def ex_root
      new_OpenFile_def Let_def Dir_FetchFrom_def Directory_new_def NumDirEntries_def)
     (simp add: ex_fs_def ex_disk_def)

lemma ex_go_ab: "GoDirectory ex_fs ''/a//b'' =
    Inr (''b'', True, Some (directoryFile ex_fs), ex_fs\<lparr>live := [0, 1, 2]\<rparr>)"
  by (simp add: GoDirectory_def PreprocessPath_def NAME_SIZE_def IsDir_def ex_root
      new_OpenFile_def Let_def Dir_FetchFrom_def Directory_new_def NumDirEntries_def)
     (simp add: ex_fs_def ex_disk_def)

subsection \<open>Create\<close>

text \<open>Whenever \<open>Create\<close> returns \<^verbatim>\<open>FALSE\<close>, the disk is the one it started from and
  no \<^verbatim>\<open>WriteBack\<close> has been performed.\<close>

lemma Create_False_keeps_disk:
  assumes "Create SectorSize fs path initialSize = Inr (False, fs')"
  shows "dsk fs' = dsk fs \<and> writes fs' = writes fs"
proof (cases "GoDirectory fs path")
  case (Inl e)
  with assms show ?thesis by (simp add: Create_def)
next
  case (Inr res)
  obtain name nameLive dirFileOpt fs1 where res: "res = (name, nameLive, dirFileOpt, fs1)"
    by (cases res)
  note fr = GoDirectory_frame [OF Inr [unfolded res]]
  from assms have "fs' = fs1"
    unfolding Create_def
    by (simp add: Inr res Let_def split_beta split: option.splits if_splits)
  with fr show ?thesis by simp
qed

text \<open>C1: when path resolution has returned the containing directory and \<open>Create\<close> fails
  because the name is already in that directory, or no sector is free for the header, or
  the directory table is full, or the data sectors cannot be allocated, \<open>Create\<close> returns
  \<^verbatim>\<open>FALSE\<close>, and the disk (bitmap, directories and headers) is unchanged: no
  \<^verbatim>\<open>WriteBack\<close> is performed.\<close>

theorem Create_failure_discards:
  assumes "GoDirectory fs path = Inr (name, True, Some dirFile, fs1)"
    and "Find (Dir_FetchFrom fs1 dirFile) name \<noteq> -1
       \<or> fst (FindAndSet (Bitmap_FetchFrom fs1 (freeMapFile fs1))) = -1
       \<or> \<not> fst (Add (Dir_FetchFrom fs1 dirFile) name
                 (fst (FindAndSet (Bitmap_FetchFrom fs1 (freeMapFile fs1)))))
       \<or> \<not> fst (Allocate SectorSize
                 (snd (FindAndSet (Bitmap_FetchFrom fs1 (freeMapFile fs1)))) initialSize)"
  shows "Create SectorSize fs path initialSize = Inr (False, fs1)
       \<and> dsk fs1 = dsk fs \<and> writes fs1 = writes fs"
proof -
  from assms(2)
  have "Create SectorSize fs path initialSize = Inr (False, fs1)"
    unfolding Create_def by (auto simp: assms(1) Let_def split_beta)
  with GoDirectory_frame [OF assms(1)] show ?thesis by simp
qed

text \<open>The four failures on the example disk: \<open>/f\<close> exists; no sector is free; the root
  table is full; a file of 500 bytes needs four data sectors and three are free.\<close>

theorem Create_failure_discards_witness:
  "Create 128 ex_fs ''/f'' 10 = Inr (False, ex_fs)
   \<and> Create 128 ex_fs_full ''/h'' 10 = Inr (False, ex_fs_full)
   \<and> Create 128 ex_fs_dirfull ''/h'' 10 = Inr (False, ex_fs_dirfull)
   \<and> Create 128 ex_fs ''/h'' 500 = Inr (False, ex_fs)"
proof -
  have 1: "Find (Dir_FetchFrom ex_fs (directoryFile ex_fs)) ''f'' \<noteq> -1"
    by (simp add: ex_root)
  have 2: "fst (FindAndSet (Bitmap_FetchFrom ex_fs_full (freeMapFile ex_fs_full))) = -1"
    by (simp add: Bitmap_FetchFrom_def ex_fs_full_def eval_nat_numeral)
  have 3: "\<not> fst (Add (Dir_FetchFrom ex_fs_dirfull (directoryFile ex_fs_dirfull)) ''h''
                 (fst (FindAndSet (Bitmap_FetchFrom ex_fs_dirfull (freeMapFile ex_fs_dirfull)))))"
    by (simp add: Dir_FetchFrom_def NumDirEntries_def ex_fs_dirfull_def Add_def)
  have 4: "\<not> fst (Allocate 128
                 (snd (FindAndSet (Bitmap_FetchFrom ex_fs (freeMapFile ex_fs)))) 500)"
    by (simp add: Bitmap_FetchFrom_def ex_fs_def ex_disk_def Allocate_def divRoundUp_def
        eval_nat_numeral)
  show ?thesis
    using Create_failure_discards [OF ex_go_f, of 128 10]
      Create_failure_discards [OF GoDirectory_root_h, of ex_fs_full 128 10]
      Create_failure_discards [OF GoDirectory_root_h, of ex_fs_dirfull 128 10]
      Create_failure_discards [OF GoDirectory_root_h, of ex_fs 128 500]
      1 2 3 4
    by simp
qed

text \<open>C2: when the name is not in the resolved directory, a header sector is found, the
  directory \<open>Add\<close> succeeds and the data sectors are allocated, \<open>Create\<close> returns
  \<^verbatim>\<open>TRUE\<close> and performs exactly these writes, in this order: the new header to its
  sector, the containing directory, an empty directory table into the new file if and only
  if the name ends in \<open>/\<close>, and last the bitmap.\<close>

theorem Create_success_writes:
  assumes go: "GoDirectory fs path = Inr (name, True, Some dirFile, fs1)"
    and absent: "Find (Dir_FetchFrom fs1 dirFile) name = -1"
    and hs: "FindAndSet (Bitmap_FetchFrom fs1 (freeMapFile fs1)) = (sector, freeMap)"
            "sector \<noteq> -1"
    and add: "Add (Dir_FetchFrom fs1 dirFile) name sector = (True, directory')"
    and alloc: "Allocate SectorSize freeMap initialSize = (True, hdr, freeMap')"
    and ws: "ws = [HdrWrite sector hdr, DirWrite (hdrSector dirFile) directory']
                @ (if IsDir name then [DirWrite sector (Directory_new NumDirEntries)] else [])
                @ [MapWrite (hdrSector (freeMapFile fs)) freeMap']"
  shows "\<exists>fs'. Create SectorSize fs path initialSize = Inr (True, fs')
           \<and> writes fs' = writes fs @ ws
           \<and> dsk fs' = fold apply_write ws (dsk fs)"
proof -
  note fr = GoDirectory_frame [OF go]
  from hs(1) fr have hs': "FindAndSet (Bitmap_FetchFrom fs1 (freeMapFile fs)) = (sector, freeMap)"
    by simp
  show ?thesis
    unfolding Create_def
    by (simp add: go absent hs' hs(2) add alloc ws Let_def split_beta io_simps fr)
qed

text \<open>Creating the directory \<open>/a/d/\<close> of 100 bytes on the example disk: header in sector 9,
  one data sector 10.\<close>

theorem Create_success_writes_witness:
  "\<exists>fs'. Create 128 ex_fs ''/a/d/'' 100 = Inr (True, fs')
     \<and> writes fs' =
         [HdrWrite 9 \<lparr>numBytes = 100, dataSectors = [10]\<rparr>,
          DirWrite 4
            [\<lparr>inUse = True, e_sector = 8, e_name = ''g''\<rparr>,
             \<lparr>inUse = True, e_sector = 9, e_name = ''d/''\<rparr>,
             \<lparr>inUse = False, e_sector = 0, e_name = []\<rparr>,
             \<lparr>inUse = False, e_sector = 0, e_name = []\<rparr>,
             \<lparr>inUse = False, e_sector = 0, e_name = []\<rparr>,
             \<lparr>inUse = False, e_sector = 0, e_name = []\<rparr>,
             \<lparr>inUse = False, e_sector = 0, e_name = []\<rparr>,
             \<lparr>inUse = False, e_sector = 0, e_name = []\<rparr>,
             \<lparr>inUse = False, e_sector = 0, e_name = []\<rparr>,
             \<lparr>inUse = False, e_sector = 0, e_name = []\<rparr>],
          DirWrite 9 (Directory_new NumDirEntries),
          MapWrite 0 [True, True, True, True, True, True, True, True, True, True, True, False]]"
proof -
  let ?fs1 = "ex_fs\<lparr>live := [0, 1, 2]\<rparr>"
  let ?dirFile = "\<lparr>addr = 2, hdrSector = 4, fdTag = None\<rparr>"
  have fm: "freeMapFile ?fs1 = freeMapFile ex_fs"
    by simp
  have absent: "Find (Dir_FetchFrom ?fs1 ?dirFile) ''d/'' = -1"
    by (simp add: ex_sub)
  have hs: "FindAndSet (Bitmap_FetchFrom ?fs1 (freeMapFile ?fs1)) =
      (9, [True, True, True, True, True, True, True, True, True, True, False, False])"
    unfolding fm by (simp add: ex_map)
  have add: "Add (Dir_FetchFrom ?fs1 ?dirFile) ''d/'' 9 =
      (True, [\<lparr>inUse = True, e_sector = 8, e_name = ''g''\<rparr>,
             \<lparr>inUse = True, e_sector = 9, e_name = ''d/''\<rparr>,
             \<lparr>inUse = False, e_sector = 0, e_name = []\<rparr>,
             \<lparr>inUse = False, e_sector = 0, e_name = []\<rparr>,
             \<lparr>inUse = False, e_sector = 0, e_name = []\<rparr>,
             \<lparr>inUse = False, e_sector = 0, e_name = []\<rparr>,
             \<lparr>inUse = False, e_sector = 0, e_name = []\<rparr>,
             \<lparr>inUse = False, e_sector = 0, e_name = []\<rparr>,
             \<lparr>inUse = False, e_sector = 0, e_name = []\<rparr>,
             \<lparr>inUse = False, e_sector = 0, e_name = []\<rparr>])"
    by (simp add: ex_sub Add_def)
  have alloc: "Allocate 128
       [True, True, True, True, True, True, True, True, True, True, False, False] 100 =
      (True, \<lparr>numBytes = 100, dataSectors = [10]\<rparr>,
       [True, True, True, True, True, True, True, True, True, True, True, False])"
    by (simp add: Allocate_def divRoundUp_def eval_nat_numeral)
  have w: "writes ex_fs = []" "hdrSector (freeMapFile ex_fs) = 0"
    by (simp_all add: ex_fs_def)
  from Create_success_writes [OF ex_go_ad absent hs _ add alloc refl]
  show ?thesis
    by (auto simp: IsDir_def w)
qed

subsection \<open>The descriptor scan and Open\<close>

text \<open>The scan grants free slots only, and finds none when every slot of the table is
  bound; \<open>Open\<close> then deletes the handle it has just made and returns no handle.\<close>

lemma GetSysFd_loop_free:
  "GetSysFd_loop N table i fd = Some fd' \<Longrightarrow> table fd' = None"
proof (induction N table i fd rule: GetSysFd_loop.induct)
  case (1 N table i fd)
  from "1.prems" show ?case
    by (subst (asm) GetSysFd_loop.simps) (auto split: if_splits dest: "1.IH")
qed

lemma GetSysFd_loop_full:
  "0 \<le> i \<Longrightarrow> 0 \<le> fd \<Longrightarrow> \<forall>k. 0 \<le> k \<and> k < N \<longrightarrow> table k \<noteq> None \<Longrightarrow>
     GetSysFd_loop N table i fd = None"
proof (induction N table i fd rule: GetSysFd_loop.induct)
  case (1 N table i fd)
  show ?case
  proof (cases "i < N")
    case True
    with "1.prems" have r: "0 \<le> (fd + i) smod N" "(fd + i) smod N < N"
      by (simp_all add: signed_modulo_int_def sgn_if)
    with "1.prems" have occ: "table ((fd + i) smod N) \<noteq> None"
      by blast
    with "1.IH" [OF True occ] "1.prems" r True show ?thesis
      by (subst GetSysFd_loop.simps) simp
  next
    case False
    then show ?thesis
      by (subst GetSysFd_loop.simps) simp
  qed
qed

lemma GetSysFd_first_probe:
  "0 < N \<Longrightarrow> sysOpFileTable fs (fdPosition fs smod N) = None \<Longrightarrow>
     GetSysFd N fs = (Some (fdPosition fs smod N), fs\<lparr>fdPosition := fdPosition fs smod N + 1\<rparr>)"
  by (simp add: GetSysFd_def GetSysFd_loop.simps [of N _ 0])

lemma Open_table_full:
  assumes go: "GoDirectory fs path = Inr (name, True, Some dirFile, fs1)"
    and isfile: "\<not> IsDir name"
    and found: "0 \<le> Find (Dir_FetchFrom fs1 dirFile) name"
    and pos: "0 \<le> fdPosition fs"
    and full: "\<forall>k. 0 \<le> k \<and> k < N \<longrightarrow> sysOpFileTable fs k \<noteq> None"
  shows "\<exists>fs'. Open N fs path = Inr (None, fs')
           \<and> live fs' = removeAll (addr (fst (new_OpenFile (Find (Dir_FetchFrom fs1 dirFile) name)
                               (if addr dirFile \<noteq> addr (directoryFile fs1)
                                then delete_OpenFile dirFile fs1 else fs1))))
                           (live (snd (new_OpenFile (Find (Dir_FetchFrom fs1 dirFile) name)
                               (if addr dirFile \<noteq> addr (directoryFile fs1)
                                then delete_OpenFile dirFile fs1 else fs1))))"
proof -
  note fr = GoDirectory_frame [OF go]
  have "GetSysFd_loop N (sysOpFileTable fs) 0 (fdPosition fs) = None"
    using GetSysFd_loop_full [of 0 "fdPosition fs" N "sysOpFileTable fs"] pos full by simp
  then show ?thesis
    unfolding Open_def
    by (simp add: go isfile found Let_def split_beta GetSysFd_def new_OpenFile_def
        delete_OpenFile_def fr)
qed

text \<open>The probe positions of the code are \<open>fdPosition\<close>, \<open>+1\<close>, \<open>+3\<close>, \<open>+6\<close>, \<dots>:
  the offset \<open>i\<close> is added to the position already advanced. For any capacity of at least
  four, with the first two slots probed bound, the scan passes over the free slot 2 and
  grants 3.\<close>

lemma GetSysFd_loop_skips:
  assumes "4 \<le> N" "table 0 \<noteq> None" "table 1 \<noteq> None" "table 3 = None"
  shows "GetSysFd_loop N table 0 N = Some 3"
proof -
  from assms(1) have m: "N smod N = 0" "1 smod N = 1" "3 smod N = 3"
    by (simp_all add: signed_modulo_int_def)
  have "GetSysFd_loop N table 2 1 = Some 3"
    using assms(1,4) by (subst GetSysFd_loop.simps) (simp add: m)
  then have "GetSysFd_loop N table 1 0 = Some 3"
    using assms(1,3) by (subst GetSysFd_loop.simps) (simp add: m)
  then show ?thesis
    using assms(1,2) by (subst GetSysFd_loop.simps) (simp add: m)
qed

text \<open>C3: the descriptor granted by \<open>Open\<close> is the first free slot of a linear
  round-robin scan that starts after the last descriptor granted. The code does not do
  this: in the example table (capacity 20, descriptors 2 and 3 free, last grant 19)
  \<open>Open\<close> of the existing file \<open>/f\<close> is granted descriptor 3, while the linear scan
  of the specification finds descriptor 2.\<close>

theorem Open_descriptor_scan_skips_free_slot:
  "Open 20 ex_fs_open ''/f'' =
     Inr (Some \<lparr>addr = 22, hdrSector = 6, fdTag = Some 3\<rparr>,
          ex_fs_open\<lparr>live := live ex_fs_open @ [22], fdPosition := 4\<rparr>)
   \<and> linear_scan_spec 20 (sysOpFileTable ex_fs_open) (fdPosition ex_fs_open) = Some 2"
proof -
  have d: "Dir_FetchFrom ex_fs_open (directoryFile ex_fs_open) = Dir_FetchFrom ex_fs (directoryFile ex_fs)"
    by (simp add: Dir_FetchFrom_def ex_fs_open_def)
  have n: "new_OpenFile 6 ex_fs_open =
      (\<lparr>addr = 22, hdrSector = 6, fdTag = None\<rparr>, ex_fs_open\<lparr>live := live ex_fs_open @ [22]\<rparr>)"
    by (simp add: new_OpenFile_def Let_def) (simp add: ex_fs_open_def ex_fs_def)
  have g: "GetSysFd_loop 20 (sysOpFileTable ex_fs_open) 0 20 = Some 3"
    by (rule GetSysFd_loop_skips) (simp_all add: ex_tab)
  have "Open 20 ex_fs_open ''/f'' =
     Inr (Some \<lparr>addr = 22, hdrSector = 6, fdTag = Some 3\<rparr>,
          ex_fs_open\<lparr>live := live ex_fs_open @ [22], fdPosition := 4\<rparr>)"
    unfolding Open_def
    by (simp add: GoDirectory_root_f d ex_root IsDir_def Let_def n GetSysFd_def ex_tab g)
  moreover have "linear_scan_spec 20 (sysOpFileTable ex_fs_open) (fdPosition ex_fs_open) = Some 2"
    by (simp add: linear_scan_spec_def ex_fs_open_def eval_nat_numeral)
  ultimately show ?thesis ..
qed

subsection \<open>Remove\<close>

text \<open>C4: when the leaf name is not in the resolved directory, \<open>Remove\<close> returns
  \<^verbatim>\<open>FALSE\<close> whatever the recursion flag, and the disk is unchanged: no
  \<^verbatim>\<open>WriteBack\<close> is performed.\<close>

theorem Remove_absent_discards:
  assumes "GoDirectory fs path = Inr (name, True, Some dirFile, fs1)"
    and "Find (Dir_FetchFrom fs1 dirFile) name = -1"
  shows "Remove RecRemove fs path recurRemoveFlag = Inr (False, fs1)
       \<and> dsk fs1 = dsk fs \<and> writes fs1 = writes fs"
proof -
  have "Remove RecRemove fs path recurRemoveFlag = Inr (False, fs1)"
    unfolding Remove_def by (simp add: assms Let_def)
  with GoDirectory_frame [OF assms(1)] show ?thesis by simp
qed

theorem Remove_absent_discards_witness:
  "Remove ex_RecRemove ex_fs ''/h'' True = Inr (False, ex_fs)
   \<and> Remove ex_RecRemove ex_fs ''/h'' False = Inr (False, ex_fs)"
proof -
  have "Find (Dir_FetchFrom ex_fs (directoryFile ex_fs)) ''h'' = -1"
    by (simp add: ex_root)
  from Remove_absent_discards [OF GoDirectory_root_h this]
  show ?thesis by simp
qed

text \<open>Clearing bits leaves every other bit as it was.\<close>

lemma Clear_length: "length (Clear freeMap s) = length freeMap"
  by (simp add: Clear_def)

lemma Clear_nth: "s' \<noteq> s \<Longrightarrow> 0 \<le> s' \<Longrightarrow> Clear freeMap s ! nat s' = freeMap ! nat s'"
  by (auto simp: Clear_def nth_list_update)

lemma fold_Clear_length: "length (fold (\<lambda>s bm. Clear bm s) secs freeMap) = length freeMap"
  by (induction secs arbitrary: freeMap) (simp_all add: Clear_length)

lemma fold_Clear_nth:
  "s' \<notin> set secs \<Longrightarrow> 0 \<le> s' \<Longrightarrow>
     fold (\<lambda>s bm. Clear bm s) secs freeMap ! nat s' = freeMap ! nat s'"
  by (induction secs arbitrary: freeMap) (auto simp: Clear_nth)

lemma Deallocate_nth:
  "s' \<notin> set (dataSectors hdr) \<Longrightarrow> 0 \<le> s' \<Longrightarrow> Deallocate hdr freeMap ! nat s' = freeMap ! nat s'"
  by (simp add: Deallocate_def fold_Clear_nth)

lemma Dir_Remove_found: "Find directory name \<noteq> -1 \<Longrightarrow> fst (Dir_Remove directory name)"
  by (induction directory) (auto simp: split_beta)

text \<open>C5: \<open>Remove\<close> with the recursion flag set, on a leaf that exists and names a
  directory: the content of the directory is reclaimed first, by \<open>RecRemove\<close> on the
  bitmap in memory; the bitmap that \<open>RecRemove\<close> returns is the one in which the data
  sectors of the leaf and its header sector are then cleared; the entry is removed from the
  containing directory; after the table of the sub-directory, bitmap and directory are
  written back whatever flag \<open>RecRemove\<close> returned; and \<open>Remove\<close> returns that
  flag.\<close>

theorem Remove_recursive_directory:
  assumes go: "GoDirectory fs path = Inr (name, True, Some dirFile, fs1)"
    and found: "Find (Dir_FetchFrom fs1 dirFile) name = sector" "sector \<noteq> -1"
    and isdir: "IsDir name"
    and sub: "new_OpenFile sector fs1 = (subDirFile, fsa)"
    and rr: "RecRemove fsa (Dir_FetchFrom fsa subDirFile) (Bitmap_FetchFrom fs (freeMapFile fs))
               = (ok, subDir', freeMap', fsb)"
    and ws: "ws = [DirWrite sector subDir',
                   MapWrite (hdrSector (freeMapFile fsb))
                     (Clear (Deallocate (Hdr_FetchFrom fsb sector) freeMap') sector),
                   DirWrite (hdrSector dirFile)
                     (snd (Dir_Remove (Dir_FetchFrom fs1 dirFile) name))]"
  shows "\<exists>fs'. Remove RecRemove fs path True = Inr (ok, fs')
           \<and> writes fs' = writes fsb @ ws
           \<and> dsk fs' = fold apply_write ws (dsk fsb)"
proof -
  note fr = GoDirectory_frame [OF go]
  have fsa: "dsk fsa = dsk fs" "writes fsa = writes fs" "freeMapFile fsa = freeMapFile fs"
       "directoryFile fsa = directoryFile fs" "hdrSector subDirFile = sector"
    using new_OpenFile_simps [of sector fs1] sub fr by simp_all
  show ?thesis
    unfolding Remove_def
    by (simp add: go found isdir sub rr [unfolded Bitmap_FetchFrom_def] ws Let_def io_simps
        fr fsa Bitmap_FetchFrom_def Hdr_FetchFrom_def apply_write_other)
qed

text \<open>Removing \<open>/a/\<close> recursively on the example disk, with a reclamation that reports
  failure: the writes are performed and \<open>Remove\<close> returns \<^verbatim>\<open>FALSE\<close>.\<close>

theorem Remove_recursive_directory_witness:
  "\<exists>fs'. Remove ex_RecRemove ex_fs ''/a/'' True = Inr (False, fs')
     \<and> writes fs' =
         [DirWrite 4
            [\<lparr>inUse = False, e_sector = 8, e_name = ''g''\<rparr>,
             \<lparr>inUse = False, e_sector = 0, e_name = []\<rparr>,
             \<lparr>inUse = False, e_sector = 0, e_name = []\<rparr>,
             \<lparr>inUse = False, e_sector = 0, e_name = []\<rparr>,
             \<lparr>inUse = False, e_sector = 0, e_name = []\<rparr>,
             \<lparr>inUse = False, e_sector = 0, e_name = []\<rparr>,
             \<lparr>inUse = False, e_sector = 0, e_name = []\<rparr>,
             \<lparr>inUse = False, e_sector = 0, e_name = []\<rparr>,
             \<lparr>inUse = False, e_sector = 0, e_name = []\<rparr>,
             \<lparr>inUse = False, e_sector = 0, e_name = []\<rparr>],
          MapWrite 0 [True, True, True, True, False, False, True, True, False, False, False, False],
          DirWrite 1
            [\<lparr>inUse = False, e_sector = 4, e_name = ''a/''\<rparr>,
             \<lparr>inUse = True, e_sector = 6, e_name = ''f''\<rparr>,
             \<lparr>inUse = False, e_sector = 0, e_name = []\<rparr>,
             \<lparr>inUse = False, e_sector = 0, e_name = []\<rparr>,
             \<lparr>inUse = False, e_sector = 0, e_name = []\<rparr>,
             \<lparr>inUse = False, e_sector = 0, e_name = []\<rparr>,
             \<lparr>inUse = False, e_sector = 0, e_name = []\<rparr>,
             \<lparr>inUse = False, e_sector = 0, e_name = []\<rparr>,
             \<lparr>inUse = False, e_sector = 0, e_name = []\<rparr>,
             \<lparr>inUse = False, e_sector = 0, e_name = []\<rparr>]]"
proof -
  let ?sub = "\<lparr>addr = 2, hdrSector = 4, fdTag = None\<rparr>"
  let ?fsa = "ex_fs\<lparr>live := [0, 1, 2]\<rparr>"
  have found: "Find (Dir_FetchFrom ex_fs (directoryFile ex_fs)) ''a/'' = 4" "(4::int) \<noteq> -1"
    by (simp_all add: ex_root)
  have isdir: "IsDir ''a/''"
    by (simp add: IsDir_def)
  have sub: "new_OpenFile 4 ex_fs = (?sub, ?fsa)"
    by (simp add: new_OpenFile_def Let_def) (simp add: ex_fs_def)
  have rr: "ex_RecRemove ?fsa (Dir_FetchFrom ?fsa ?sub) (Bitmap_FetchFrom ex_fs (freeMapFile ex_fs))
      = (False,
         [\<lparr>inUse = False, e_sector = 8, e_name = ''g''\<rparr>,
             \<lparr>inUse = False, e_sector = 0, e_name = []\<rparr>,
             \<lparr>inUse = False, e_sector = 0, e_name = []\<rparr>,
             \<lparr>inUse = False, e_sector = 0, e_name = []\<rparr>,
             \<lparr>inUse = False, e_sector = 0, e_name = []\<rparr>,
             \<lparr>inUse = False, e_sector = 0, e_name = []\<rparr>,
             \<lparr>inUse = False, e_sector = 0, e_name = []\<rparr>,
             \<lparr>inUse = False, e_sector = 0, e_name = []\<rparr>,
             \<lparr>inUse = False, e_sector = 0, e_name = []\<rparr>,
             \<lparr>inUse = False, e_sector = 0, e_name = []\<rparr>],
         [True, True, True, True, True, True, True, True, False, False, False, False], ?fsa)"
    by (simp add: ex_RecRemove_def ex_sub ex_map Clear_def)
  have w: "writes ex_fs = []" "hdrSector (freeMapFile ex_fs) = 0"
    "hdrSector (directoryFile ex_fs) = 1"
    by (simp_all add: ex_fs_def)
  have cl: "Clear (Deallocate (Hdr_FetchFrom (ex_fs\<lparr>live := l\<rparr>) 4)
        [True, True, True, True, True, True, True, True, False, False, False, False]) 4
      = [True, True, True, True, False, False, True, True, False, False, False, False]" for l
    by (simp add: Hdr_FetchFrom_def ex_fs_def ex_disk_def Deallocate_def Clear_def)
  from Remove_recursive_directory
    [where RecRemove = ex_RecRemove, OF ex_go_a found isdir sub rr refl]
  show ?thesis
    by (auto simp: w cl ex_root)
qed

text \<open>C6: \<open>Remove\<close> without the recursion flag, on a leaf that exists (a directory that
  is not empty included): it returns \<^verbatim>\<open>TRUE\<close>, writes the bitmap and the containing
  directory back, and the bitmap written differs from the one loaded only in the data
  sectors of the leaf and its header sector: nothing of what the directory contains is
  reclaimed, and \<open>RecRemove\<close> has no part in the result.\<close>

theorem Remove_nonrecursive_leaf_only:
  assumes go: "GoDirectory fs path = Inr (name, True, Some dirFile, fs1)"
    and found: "Find (Dir_FetchFrom fs1 dirFile) name = sector" "sector \<noteq> -1"
    and fm: "freeMap = Bitmap_FetchFrom fs (freeMapFile fs)"
    and fm': "freeMap' = Clear (Deallocate (Hdr_FetchFrom fs sector) freeMap) sector"
    and ws: "ws = [MapWrite (hdrSector (freeMapFile fs)) freeMap',
                   DirWrite (hdrSector dirFile)
                     (snd (Dir_Remove (Dir_FetchFrom fs1 dirFile) name))]"
  shows "(\<exists>fs'. Remove RecRemove fs path False = Inr (True, fs')
            \<and> writes fs' = writes fs @ ws
            \<and> dsk fs' = fold apply_write ws (dsk fs))
       \<and> fst (Dir_Remove (Dir_FetchFrom fs1 dirFile) name)
       \<and> (\<forall>s. 0 \<le> s \<and> s \<noteq> sector \<and> s \<notin> set (dataSectors (Hdr_FetchFrom fs sector))
             \<longrightarrow> freeMap' ! nat s = freeMap ! nat s)"
proof -
  note fr = GoDirectory_frame [OF go]
  have "\<exists>fs'. Remove RecRemove fs path False = Inr (True, fs')
            \<and> writes fs' = writes fs @ ws
            \<and> dsk fs' = fold apply_write ws (dsk fs)"
    unfolding Remove_def
    by (simp add: go found fm fm' ws Let_def io_simps fr Bitmap_FetchFrom_def Hdr_FetchFrom_def)
  moreover have "fst (Dir_Remove (Dir_FetchFrom fs1 dirFile) name)"
    using found by (simp add: Dir_Remove_found)
  moreover have "\<forall>s. 0 \<le> s \<and> s \<noteq> sector \<and> s \<notin> set (dataSectors (Hdr_FetchFrom fs sector))
             \<longrightarrow> freeMap' ! nat s = freeMap ! nat s"
    by (simp add: fm' Clear_nth Deallocate_nth)
  ultimately show ?thesis by blast
qed

text \<open>Removing \<open>/a/\<close> without recursion on the example disk: sectors 4 and 5 are freed,
  sector 8 (the header of \<open>/a/g\<close>) stays allocated.\<close>

theorem Remove_nonrecursive_leaf_only_witness:
  "\<exists>fs'. Remove ex_RecRemove ex_fs ''/a/'' False = Inr (True, fs')
     \<and> writes fs' =
         [MapWrite 0 [True, True, True, True, False, False, True, True, True, False, False, False],
          DirWrite 1
            [\<lparr>inUse = False, e_sector = 4, e_name = ''a/''\<rparr>,
             \<lparr>inUse = True, e_sector = 6, e_name = ''f''\<rparr>,
             \<lparr>inUse = False, e_sector = 0, e_name = []\<rparr>,
             \<lparr>inUse = False, e_sector = 0, e_name = []\<rparr>,
             \<lparr>inUse = False, e_sector = 0, e_name = []\<rparr>,
             \<lparr>inUse = False, e_sector = 0, e_name = []\<rparr>,
             \<lparr>inUse = False, e_sector = 0, e_name = []\<rparr>,
             \<lparr>inUse = False, e_sector = 0, e_name = []\<rparr>,
             \<lparr>inUse = False, e_sector = 0, e_name = []\<rparr>,
             \<lparr>inUse = False, e_sector = 0, e_name = []\<rparr>]]"
proof -
  have found: "Find (Dir_FetchFrom ex_fs (directoryFile ex_fs)) ''a/'' = 4" "(4::int) \<noteq> -1"
    by (simp_all add: ex_root)
  have w: "writes ex_fs = []" "hdrSector (freeMapFile ex_fs) = 0"
    "hdrSector (directoryFile ex_fs) = 1"
    by (simp_all add: ex_fs_def)
  have cl: "Clear (Deallocate (Hdr_FetchFrom ex_fs 4) (Bitmap_FetchFrom ex_fs (freeMapFile ex_fs))) 4
      = [True, True, True, True, False, False, True, True, True, False, False, False]"
    by (simp add: ex_hdr4 ex_map Deallocate_def Clear_def)
  from Remove_nonrecursive_leaf_only [OF ex_go_a found refl refl refl, of ex_RecRemove]
  show ?thesis
    by (auto simp: w cl ex_root)
qed

subsection \<open>Read, Write, Seek, Close\<close>

text \<open>C7: for a descriptor with no handle in the table, \<open>Read\<close> and \<open>Write\<close> return
  \<open>-1\<close>; for a descriptor bound to a handle, they return what the byte-range operation of
  that handle returns, and nothing else.\<close>

theorem Read_Write_delegate:
  "(sysOpFileTable fs fd = None \<longrightarrow>
      fst (Read opRead fs buf size' fd) = -1 \<and> fst (Write opWrite fs buf size' fd) = -1)
   \<and> (\<forall>opFile. sysOpFileTable fs fd = Some opFile \<longrightarrow>
        Read opRead fs buf size' fd = opRead opFile size' fs
      \<and> Write opWrite fs buf size' fd = opWrite opFile buf size' fs)"
  by (simp add: Read_def Write_def GetOpenFileTable_def)

theorem Read_Write_delegate_witness:
  "fst (Read ex_opRead ex_fs_open ''....'' 4 2) = -1
   \<and> fst (Write ex_opWrite ex_fs_open ''data'' 4 2) = -1
   \<and> Read ex_opRead ex_fs_open ''....'' 4 1 = (4, ''xxxx'', ex_fs_open)
   \<and> Write ex_opWrite ex_fs_open ''data'' 4 1 = (4, ex_fs_open)"
  using Read_Write_delegate [of ex_fs_open 2 ex_opRead "''....''" 4 ex_opWrite]
    Read_Write_delegate [of ex_fs_open 1 ex_opRead "''....''" 4 ex_opWrite]
    Read_Write_delegate [of ex_fs_open 2 ex_opRead "''data''" 4 ex_opWrite]
    Read_Write_delegate [of ex_fs_open 1 ex_opRead "''data''" 4 ex_opWrite]
  by (simp add: ex_tab ex_opRead_def ex_opWrite_def eval_nat_numeral)

text \<open>\<open>Close\<close> returns 1, erases the entry of the descriptor and leaves every other
  entry alone, and deletes the handle that was bound; on a descriptor that is absent (closed
  already, for instance) it changes nothing, so closing twice is closing once; and a scan
  whose first probe is the slot of the descriptor grants it.\<close>

lemma Close_erases_and_frees:
  "fst (Close fs fd) = 1
   \<and> sysOpFileTable (snd (Close fs fd)) fd = None
   \<and> (\<forall>fd'. fd' \<noteq> fd \<longrightarrow> sysOpFileTable (snd (Close fs fd)) fd' = sysOpFileTable fs fd')
   \<and> (\<forall>opFile. sysOpFileTable fs fd = Some opFile \<longrightarrow>
         addr opFile \<notin> set (live (snd (Close fs fd))))
   \<and> (sysOpFileTable fs fd = None \<longrightarrow> snd (Close fs fd) = fs)
   \<and> snd (Close (snd (Close fs fd)) fd) = snd (Close fs fd)
   \<and> (0 < N \<and> fdPosition fs smod N = fd \<longrightarrow> fst (GetSysFd N (snd (Close fs fd))) = Some fd)"
proof -
  have tab: "sysOpFileTable (snd (Close fs fd)) = (sysOpFileTable fs)(fd := None)"
    and pos: "fdPosition (snd (Close fs fd)) = fdPosition fs"
    by (simp_all add: Close_def GetOpenFileTable_def delete_OpenFile_def Let_def
        split: option.splits)
  have absent: "sysOpFileTable fs fd = None \<Longrightarrow> snd (Close fs fd) = fs" for fs
    by (simp add: Close_def GetOpenFileTable_def Let_def fun_upd_idem)
  have "0 < N \<Longrightarrow> fdPosition fs smod N = fd \<Longrightarrow> fst (GetSysFd N (snd (Close fs fd))) = Some fd"
    using GetSysFd_first_probe [of N "snd (Close fs fd)"] by (simp add: tab pos)
  moreover have "\<And>opFile. sysOpFileTable fs fd = Some opFile \<Longrightarrow>
         addr opFile \<notin> set (live (snd (Close fs fd)))"
    by (simp add: Close_def GetOpenFileTable_def delete_OpenFile_def Let_def)
  moreover have "snd (Close (snd (Close fs fd)) fd) = snd (Close fs fd)"
    using absent [of "snd (Close fs fd)"] by (simp add: tab)
  moreover have "fst (Close fs fd) = 1"
    by (simp add: Close_def Let_def)
  ultimately show ?thesis
    using absent by (simp add: tab)
qed

lemma Close_erases_and_frees_example:
  "fst (Close ex_fs_open 0) = 1
   \<and> sysOpFileTable (snd (Close ex_fs_open 0)) 0 = None
   \<and> sysOpFileTable (snd (Close ex_fs_open 0)) 1 = sysOpFileTable ex_fs_open 1
   \<and> 2 \<notin> set (live (snd (Close ex_fs_open 0)))
   \<and> snd (Close ex_fs_open 2) = ex_fs_open
   \<and> fst (GetSysFd 20 (snd (Close ex_fs_open 0))) = Some 0"
  using Close_erases_and_frees [of ex_fs_open 0 20] Close_erases_and_frees [of ex_fs_open 2 20]
  by (simp add: ex_tab signed_modulo_int_def)

text \<open>With a capacity of three, a scan that starts at position 3 probes 0, 1 and 0 again:
  it never reaches slot 2.\<close>

lemma GetSysFd_loop_misses_at_3:
  assumes "table 0 \<noteq> None" "table 1 \<noteq> None"
  shows "GetSysFd_loop 3 table 0 3 = None"
proof -
  have m: "(3::int) smod 3 = 0" "(1::int) smod 3 = 1"
    by (simp_all add: signed_modulo_int_def)
  have "GetSysFd_loop 3 table 3 0 = None"
    by (subst GetSysFd_loop.simps) simp
  then have "GetSysFd_loop 3 table 2 1 = None"
    using assms(1) by (subst GetSysFd_loop.simps) (simp add: m)
  then have "GetSysFd_loop 3 table 1 0 = None"
    using assms(2) by (subst GetSysFd_loop.simps) (simp add: m)
  then show ?thesis
    using assms(1) by (subst GetSysFd_loop.simps) (simp add: m)
qed




text \<open>C9: for every position and descriptor, \<open>Seek\<close> returns a positive value and
  changes nothing.\<close>

theorem Seek_stub: "0 < fst (Seek fs position fd) \<and> snd (Seek fs position fd) = fs"
  by (simp add: Seek_def)

subsection \<open>GoDirectory\<close>

text \<open>The component \<open>/\<close> resets the resolution to the root directory handle; a directory
  component that is not found while components remain, and a file component that is not
  the last one, stop at the assertion.\<close>

lemma GoLoop_root_resets:
  "GoLoop fs directory dirFile nm (''/'' # pathQueue) =
     GoLoop fs (Dir_FetchFrom fs (directoryFile fs)) (Some (directoryFile fs)) (''/'', False)
       pathQueue"
  by simp

lemma GoLoop_missing_directory_asserts:
  "name \<noteq> ''/'' \<Longrightarrow> IsDir name \<Longrightarrow> Find directory name = -1 \<Longrightarrow> pathQueue \<noteq> [] \<Longrightarrow>
     GoLoop fs directory dirFile nm (name # pathQueue) = Inl AssertFailed"
  by simp

lemma GoLoop_file_not_last_asserts:
  "name \<noteq> [] \<Longrightarrow> \<not> IsDir name \<Longrightarrow> pathQueue \<noteq> [] \<Longrightarrow>
     GoLoop fs directory dirFile nm (name # pathQueue) = Inl AssertFailed"
  by (auto simp: IsDir_def)

text \<open>The root directory handle is never deleted.\<close>

lemma GoLoop_keeps_root:
  "addr (directoryFile fs) \<in> set (live fs) \<Longrightarrow> GoLoop fs d df nm q = Inr (n, l, r, fs') \<Longrightarrow>
     addr (directoryFile fs') \<in> set (live fs')"
proof (induction q arbitrary: fs d df nm)
  case Nil
  then show ?case by simp
next
  case (Cons name q)
  show ?case
  proof (cases "name = ''/''")
    case True
    with Cons.prems Cons.IH show ?thesis by simp
  next
    case False
    show ?thesis
    proof (cases "IsDir name \<and> Find d name \<noteq> -1 \<and> q \<noteq> []")
      case True
      let ?fs1 = "case df of None \<Rightarrow> fs
                  | Some f \<Rightarrow> if addr f \<noteq> addr (directoryFile fs) then delete_OpenFile f fs else fs"
      obtain f fs2 where nf: "new_OpenFile (Find d name) ?fs1 = (f, fs2)"
        by (cases "new_OpenFile (Find d name) ?fs1")
      have "addr (directoryFile ?fs1) \<in> set (live ?fs1)"
        using Cons.prems(1) by (auto simp: delete_OpenFile_def split: option.splits)
      with new_OpenFile_fresh(4,5) [OF nf] have root: "addr (directoryFile fs2) \<in> set (live fs2)"
        by simp
      from Cons.prems(2) False True nf
      have "GoLoop fs2 (Dir_FetchFrom fs2 f) (Some f) (name, False) q = Inr (n, l, r, fs')"
        by (simp add: Let_def)
      from Cons.IH [OF root this] show ?thesis .
    next
      case F2: False
      with Cons.prems False show ?thesis
        by (auto simp: Let_def split: if_splits)
    qed
  qed
qed

lemma GoDirectory_keeps_root:
  "addr (directoryFile fs) \<in> set (live fs) \<Longrightarrow> GoDirectory fs path = Inr (n, l, r, fs') \<Longrightarrow>
     directoryFile fs' = directoryFile fs \<and> addr (directoryFile fs) \<in> set (live fs')"
  using GoDirectory_frame [of fs path n l r fs']
  by (auto simp: GoDirectory_def split: sum.splits dest: GoLoop_keeps_root)

text \<open>For a path that starts with \<open>/\<close> and has no other component \<open>/\<close>, a handle is
  returned, and every handle opened on the way, the one returned excepted, has been
  deleted.\<close>

lemma GoLoop_returns_handle:
  "GoLoop fs d (Some f) nm q = Inr (n, l, r, fs') \<Longrightarrow> r \<noteq> None"
proof (induction q arbitrary: fs d f nm)
  case Nil
  then show ?case by auto
next
  case (Cons name q)
  show ?case
  proof (cases "name = ''/''")
    case True
    with Cons.prems Cons.IH show ?thesis by simp
  next
    case False
    show ?thesis
    proof (cases "IsDir name \<and> Find d name \<noteq> -1 \<and> q \<noteq> []")
      case True
      let ?fs1 = "if addr f \<noteq> addr (directoryFile fs) then delete_OpenFile f fs else fs"
      obtain f' fs2 where nf: "new_OpenFile (Find d name) ?fs1 = (f', fs2)"
        by (cases "new_OpenFile (Find d name) ?fs1")
      from Cons.prems False True nf
      have "GoLoop fs2 (Dir_FetchFrom fs2 f') (Some f') (name, False) q = Inr (n, l, r, fs')"
        by (simp add: Let_def)
      from Cons.IH [OF this] show ?thesis .
    next
      case F2: False
      with Cons.prems False show ?thesis
        by (auto simp: Let_def split: if_splits)
    qed
  qed
qed

lemma GoLoop_no_reset_releases:
  "''/'' \<notin> set q \<Longrightarrow> only_extra live0 fs df \<Longrightarrow> GoLoop fs d df nm q = Inr (n, l, r, fs') \<Longrightarrow>
     only_extra live0 fs' r"
proof (induction q arbitrary: fs d df nm)
  case Nil
  then show ?case by simp
next
  case (Cons name q)
  from Cons.prems(1) have nr: "name \<noteq> ''/''" "''/'' \<notin> set q"
    by auto
  show ?case
  proof (cases "IsDir name \<and> Find d name \<noteq> -1 \<and> q \<noteq> []")
    case True
    let ?fs1 = "case df of None \<Rightarrow> fs
                | Some f \<Rightarrow> if addr f \<noteq> addr (directoryFile fs) then delete_OpenFile f fs else fs"
    obtain f fs2 where nf: "new_OpenFile (Find d name) ?fs1 = (f, fs2)"
      by (cases "new_OpenFile (Find d name) ?fs1")
    have l1: "live ?fs1 = live0" and d1: "directoryFile ?fs1 = directoryFile fs"
      using Cons.prems(2)
      by (auto simp: only_extra_def delete_OpenFile_def split: option.splits if_splits)
    from new_OpenFile_fresh [OF nf] l1 d1 have "only_extra live0 fs2 (Some f)"
      by (simp add: only_extra_def)
    moreover from Cons.prems(3) nr True nf
    have "GoLoop fs2 (Dir_FetchFrom fs2 f) (Some f) (name, False) q = Inr (n, l, r, fs')"
      by (simp add: Let_def)
    ultimately show ?thesis
      using Cons.IH [OF nr(2)] by blast
  next
    case False
    with Cons.prems nr show ?thesis
      by (auto simp: Let_def split: if_splits)
  qed
qed

lemma GoDirectory_absolute_releases:
  assumes "PreprocessPath path = Inr (''/'' # q)" "''/'' \<notin> set q"
    and "GoDirectory fs path = Inr (n, l, r, fs')"
  shows "\<exists>f. r = Some f \<and> only_extra (live fs) fs' r"
proof -
  from assms(1,3)
  have g: "GoLoop fs (Dir_FetchFrom fs (directoryFile fs)) (Some (directoryFile fs)) (''/'', False) q
      = Inr (n, l, r, fs')"
    by (simp add: GoDirectory_def)
  have "only_extra (live fs) fs (Some (directoryFile fs))"
    by (simp add: only_extra_def)
  from GoLoop_no_reset_releases [OF assms(2) this g] have e: "only_extra (live fs) fs' r" .
  from GoLoop_returns_handle [OF g] e show ?thesis by auto
qed

text \<open>C10: path resolution returns the handle of the containing directory with every
  intermediate handle that is not the root released. The code does not do this when a
  component \<open>/\<close> follows a directory component: the branch for \<open>/\<close> replaces the current
  handle by the root handle without deleting it. On the example disk, resolving \<open>/a//b\<close>
  returns the root handle, and the handle opened for \<open>a/\<close> (address 2) is still live.\<close>

theorem GoDirectory_root_reset_leaks_handle:
  "GoDirectory ex_fs ''/a//b'' =
     Inr (''b'', True, Some (directoryFile ex_fs), ex_fs\<lparr>live := live ex_fs @ [2]\<rparr>)
   \<and> 2 \<notin> set (live ex_fs)"
  using ex_go_ab by (simp add: ex_fs_def)

end
